theory Spec2Isabelle
  imports Main "HOL-Library.Sublist"
begin

section \<open>Strings\<close>

text \<open>
  A JavaScript string is a sequence of UTF-16 code units; every literal of the sources
  lies in the Basic Multilingual Plane, so a code unit is a code point there. ASCII
  literals are written through \<open>ascii\<close>, the Japanese ones as their code units.
\<close>

type_synonym jsstring = "nat list"

definition ascii :: "string \<Rightarrow> jsstring" where
  "ascii s = map of_char s"

text \<open>\<open>Array.prototype.join\<close> on strings.\<close>

fun join :: "jsstring \<Rightarrow> jsstring list \<Rightarrow> jsstring" where
  "join sep [] = []"
| "join sep [x] = x"
| "join sep (x # y # ys) = x @ sep @ join sep (y # ys)"

text \<open>\<open>String.prototype.includes\<close>: the argument occurs as a contiguous run.\<close>

fun js_includes :: "jsstring \<Rightarrow> jsstring \<Rightarrow> bool" where
  "js_includes [] t = (t = [])"
| "js_includes (c # s) t = (prefix t (c # s) \<or> js_includes s t)"

text \<open>
  \<open>String.prototype.trim\<close> strips ECMAScript white space and line terminators from
  both ends.
\<close>

definition is_white_space :: "nat \<Rightarrow> bool" where
  "is_white_space c =
     (c = 0x09 \<or> c = 0x0A \<or> c = 0x0B \<or> c = 0x0C \<or> c = 0x0D \<or> c = 0x20 \<or> c = 0xA0
      \<or> c = 0x1680 \<or> (0x2000 \<le> c \<and> c \<le> 0x200A) \<or> c = 0x2028 \<or> c = 0x2029
      \<or> c = 0x202F \<or> c = 0x205F \<or> c = 0x3000 \<or> c = 0xFEFF)"

definition trim :: "jsstring \<Rightarrow> jsstring" where
  "trim s = rev (dropWhile is_white_space (rev (dropWhile is_white_space s)))"

text \<open>The decimal digits of a non-negative integer, as a template literal prints it.\<close>

fun Number_toString :: "nat \<Rightarrow> jsstring" where
  "Number_toString n =
     (if n < 10 then [0x30 + n] else Number_toString (n div 10) @ [0x30 + n mod 10])"

section \<open>Regular expressions\<close>

text \<open>
  The fragment of regular expressions the email test needs, matched by derivatives.
  A pattern anchored with \<open>^\<close> and \<open>$\<close> (no \<open>m\<close> flag) has to match the whole input.
\<close>

datatype rx =
    Nothing
  | Eps
  | Cls "nat \<Rightarrow> bool"
  | Seq rx rx
  | Alt rx rx
  | Star rx

fun nullable :: "rx \<Rightarrow> bool" where
  "nullable Nothing = False"
| "nullable Eps = True"
| "nullable (Cls p) = False"
| "nullable (Seq r s) = (nullable r \<and> nullable s)"
| "nullable (Alt r s) = (nullable r \<or> nullable s)"
| "nullable (Star r) = True"

fun deriv :: "nat \<Rightarrow> rx \<Rightarrow> rx" where
  "deriv c Nothing = Nothing"
| "deriv c Eps = Nothing"
| "deriv c (Cls p) = (if p c then Eps else Nothing)"
| "deriv c (Seq r s) =
     (if nullable r then Alt (Seq (deriv c r) s) (deriv c s) else Seq (deriv c r) s)"
| "deriv c (Alt r s) = Alt (deriv c r) (deriv c s)"
| "deriv c (Star r) = Seq (deriv c r) (Star r)"

fun rx_test :: "rx \<Rightarrow> jsstring \<Rightarrow> bool" where
  "rx_test r [] = nullable r"
| "rx_test r (c # s) = rx_test (deriv c r) s"

definition Plus :: "rx \<Rightarrow> rx" where
  "Plus r = Seq r (Star r)"

definition Chr :: "nat \<Rightarrow> rx" where
  "Chr c = Cls (\<lambda>d. d = c)"

text \<open>
  Character classes under the \<open>i\<close> flag (without \<open>u\<close>): \<open>[A-Z]\<close> matches the ASCII
  letters of both cases and nothing else, since canonicalisation never maps a code unit
  above 127 to one below 128.
\<close>

definition is_alpha :: "nat \<Rightarrow> bool" where
  "is_alpha c = ((0x41 \<le> c \<and> c \<le> 0x5A) \<or> (0x61 \<le> c \<and> c \<le> 0x7A))"

definition is_digit :: "nat \<Rightarrow> bool" where
  "is_digit c = (0x30 \<le> c \<and> c \<le> 0x39)"

text \<open>\<open>[A-Z0-9._%+-]\<close>\<close>

definition is_local_char :: "nat \<Rightarrow> bool" where
  "is_local_char c =
     (is_alpha c \<or> is_digit c \<or> c = 0x2E \<or> c = 0x5F \<or> c = 0x25 \<or> c = 0x2B \<or> c = 0x2D)"

text \<open>\<open>[A-Z0-9.-]\<close>\<close>

definition is_domain_char :: "nat \<Rightarrow> bool" where
  "is_domain_char c = (is_alpha c \<or> is_digit c \<or> c = 0x2E \<or> c = 0x2D)"

text \<open>\<open>/^[A-Z0-9._%+-]+@[A-Z0-9.-]+\.[A-Z]{2,}$/i\<close>\<close>

definition email_rx :: rx where
  "email_rx =
     Seq (Plus (Cls is_local_char))
      (Seq (Chr 0x40)
        (Seq (Plus (Cls is_domain_char))
          (Seq (Chr 0x2E)
            (Seq (Cls is_alpha) (Seq (Cls is_alpha) (Star (Cls is_alpha)))))))"

definition email_regex_test :: "jsstring \<Rightarrow> bool" where
  "email_regex_test s = rx_test email_rx s"



section \<open>Employee records\<close>

text \<open>
  The argument of \<open>createEmployee\<close> and the objects \<open>validateCSVData\<close> builds carry the
  five text fields; an \<open>Employee\<close> of the list view adds the identifier and the creation
  time the store assigns.
\<close>

record employee_data =
  name :: jsstring
  email :: jsstring
  company_name :: jsstring
  department :: jsstring
  position :: jsstring

record Employee = employee_data +
  emp_id :: jsstring
  created_at :: jsstring

section \<open>CSV import: validateCSVData\<close>

definition hdr_company_name :: jsstring where
  "hdr_company_name = [0x4F1A, 0x793E, 0x540D]"

definition hdr_name :: jsstring where
  "hdr_name = [0x6C0F, 0x540D]"

definition hdr_email :: jsstring where
  "hdr_email = [0x30E1, 0x30FC, 0x30EB, 0x30A2, 0x30C9, 0x30EC, 0x30B9]"

definition hdr_department :: jsstring where
  "hdr_department = [0x90E8, 0x7F72]"

definition hdr_position :: jsstring where
  "hdr_position = [0x5F79, 0x8077]"

text \<open>\<open>REQUIRED_HEADERS\<close>, in the object's key order.\<close>

definition REQUIRED_HEADERS :: "(jsstring \<times> string) list" where
  "REQUIRED_HEADERS =
     [(hdr_company_name, ''company_name''),
      (hdr_name, ''name''),
      (hdr_email, ''email''),
      (hdr_department, ''department''),
      (hdr_position, ''position'')]"

text \<open>
  What \<open>Papa.parse\<close> hands to its callbacks. With \<open>header: true\<close> a row is an object
  keyed by header name; a column the line does not reach is \<open>undefined\<close> (\<open>None\<close>).
  The parser is a third-party library: the functions below take it as a parameter.
\<close>

type_synonym CSVRow = "jsstring \<Rightarrow> jsstring option"

record parse_results =
  meta_fields :: "jsstring list option"
  results_data :: "CSVRow list"

datatype parse_outcome =
    Complete parse_results
  | Parse_error jsstring

record File =
  file_size :: nat
  file_text :: jsstring

record ValidationResult =
  valid :: bool
  errors :: "jsstring list"
  data :: "employee_data list option"

text \<open>The missing-columns message: a fixed Japanese prefix, then \<open>missingHeaders.join(', ')\<close>.\<close>

definition msg_missing_headers :: "jsstring list \<Rightarrow> jsstring" where
  "msg_missing_headers missing =
     [0x5FC5, 0x9808, 0x5217, 0x304C, 0x4E0D, 0x8DB3, 0x3057, 0x3066, 0x3044, 0x307E,
      0x3059, 0x3A, 0x20] @ join (ascii '', '') missing"

text \<open>The required-cell message: \<open>${rowNum}\<close>, U+884C U+76EE \<open>': '\<close>, \<open>${header}\<close>, a fixed suffix.\<close>

definition msg_required :: "nat \<Rightarrow> jsstring \<Rightarrow> jsstring" where
  "msg_required rowNum header =
     Number_toString rowNum @ [0x884C, 0x76EE, 0x3A, 0x20] @ header
       @ [0x306F, 0x5FC5, 0x9808, 0x3067, 0x3059]"

text \<open>The email-format message: \<open>${rowNum}\<close>, U+884C U+76EE \<open>': '\<close>, a fixed text.\<close>

definition msg_email_format :: "nat \<Rightarrow> jsstring" where
  "msg_email_format rowNum =
     Number_toString rowNum @ [0x884C, 0x76EE, 0x3A, 0x20]
       @ [0x30E1, 0x30FC, 0x30EB, 0x30A2, 0x30C9, 0x30EC, 0x30B9, 0x306E, 0x5F62, 0x5F0F,
          0x304C, 0x4E0D, 0x6B63, 0x3067, 0x3059]"

text \<open>The parse-failure message: a fixed prefix, then \<open>${error.message}\<close>.\<close>

definition msg_parse_failed :: "jsstring \<Rightarrow> jsstring" where
  "msg_parse_failed m =
     [0x43, 0x53, 0x56, 0x30D5, 0x30A1, 0x30A4, 0x30EB, 0x306E, 0x89E3, 0x6790, 0x306B,
      0x5931, 0x6557, 0x3057, 0x307E, 0x3057, 0x305F, 0x3A, 0x20] @ m"

text \<open>\<open>!row[header]?.trim()\<close>: the cell is missing, or blank once trimmed.\<close>

definition blank_cell :: "jsstring option \<Rightarrow> bool" where
  "blank_cell v = (case v of None \<Rightarrow> True | Some s \<Rightarrow> trim s = [])"

text \<open>
  The \<open>rowErrors\<close> of one row: one message per required column that is blank, in the
  order of \<open>REQUIRED_HEADERS\<close>, then the email format message when the email cell is a
  non-empty string the pattern rejects.
\<close>

definition rowErrors :: "nat \<Rightarrow> CSVRow \<Rightarrow> jsstring list" where
  "rowErrors rowNum row =
     concat (map (\<lambda>(header, field). if blank_cell (row header) then [msg_required rowNum header] else [])
                 REQUIRED_HEADERS)
     @ (case row hdr_email of
          None \<Rightarrow> []
        | Some e \<Rightarrow> if e \<noteq> [] \<and> \<not> email_regex_test e then [msg_email_format rowNum] else [])"

text \<open>A cell read into a record; the filter has made sure it is a string.\<close>

definition cell :: "CSVRow \<Rightarrow> jsstring \<Rightarrow> jsstring" where
  "cell row header = (case row header of None \<Rightarrow> [] | Some s \<Rightarrow> s)"

definition toRecord :: "CSVRow \<Rightarrow> employee_data" where
  "toRecord row =
     \<lparr>name = cell row hdr_name,
      email = cell row hdr_email,
      company_name = cell row hdr_company_name,
      department = cell row hdr_department,
      position = cell row hdr_position\<rparr>"

text \<open>
  \<open>results.data.indexOf(row)\<close> compares object identities, and every row is an object
  of its own: it is the row's index. The rows are therefore numbered from 0 here.
\<close>

definition numbered :: "'a list \<Rightarrow> (nat \<times> 'a) list" where
  "numbered xs = zip [0..<length xs] xs"

text \<open>The \<open>complete\<close> callback of \<open>validateCSVData\<close>.\<close>

definition complete :: "parse_results \<Rightarrow> ValidationResult" where
  "complete results =
     (let headers = (case meta_fields results of None \<Rightarrow> [] | Some fs \<Rightarrow> fs);
          missingHeaders = filter (\<lambda>header. header \<notin> set headers) (map fst REQUIRED_HEADERS);
          headerErrors = (if length missingHeaders > 0 then [msg_missing_headers missingHeaders] else []);
          rows = numbered (results_data results);
          errs = headerErrors @ concat (map (\<lambda>(i, row). rowErrors (i + 2) row) rows);
          validData = map (\<lambda>(i, row). toRecord row)
                          (filter (\<lambda>(i, row). \<not> length (rowErrors (i + 2) row) > 0) rows)
      in \<lparr>valid = (length errs = 0 \<and> length validData > 0), errors = errs, data = Some validData\<rparr>)"

definition validateCSVData :: "(File \<Rightarrow> parse_outcome) \<Rightarrow> File \<Rightarrow> ValidationResult" where
  "validateCSVData Papa_parse file =
     (case Papa_parse file of
        Complete results \<Rightarrow> complete results
      | Parse_error m \<Rightarrow> \<lparr>valid = False, errors = [msg_parse_failed m], data = None\<rparr>)"

section \<open>CSV export: downloadCSV\<close>

text \<open>\<open>Object.values(headers)\<close>, in the object's key order.\<close>

definition export_headers :: "jsstring list" where
  "export_headers = [hdr_name, hdr_email, hdr_company_name, hdr_department, hdr_position]"

definition quoted :: "jsstring \<Rightarrow> jsstring" where
  "quoted s = [0x22] @ s @ [0x22]"

definition export_line :: "'a employee_data_scheme \<Rightarrow> jsstring" where
  "export_line row =
     join [0x2C]
       [quoted (name row), quoted (email row), quoted (company_name row),
        quoted (department row), quoted (position row)]"

definition csvContent :: "'a employee_data_scheme list \<Rightarrow> jsstring" where
  "csvContent rows = join [0x0A] (join [0x2C] export_headers # map export_line rows)"

text \<open>
  The text \<open>downloadCSV\<close> puts into the blob it offers for download:
  \<open>'\uFEFF' + csvContent\<close>. The blob stores it in UTF-8, where U+FEFF is the byte order
  mark.
\<close>

definition downloadCSV :: "'a employee_data_scheme list \<Rightarrow> jsstring" where
  "downloadCSV rows = 0xFEFF # csvContent rows"

text \<open>
  The object a parser with \<open>header: true\<close> builds from a data line that carries the
  five fields of a record under the export's header row: the meeting point of the
  export and the import.
\<close>

definition export_row :: "employee_data \<Rightarrow> CSVRow" where
  "export_row d =
     map_of (zip export_headers [name d, email d, company_name d, department d, position d])"






section \<open>Data access layer\<close>

text \<open>
  The hosted backend is an external collaborator. A request answers with an object
  \<open>{data, error}\<close>; what it answers may depend on everything that happened before, so
  the backend is a function of the history of events. Every call appends the request
  and its answer to the history: the history is the record of which calls were made,
  in which order.
\<close>

record pg_error =
  pg_code :: jsstring
  pg_message :: jsstring

record 'a response =
  resp_data :: "'a option"
  resp_error :: "pg_error option"

datatype event =
    Parse_file File
  | Select_email jsstring "jsstring response"
  | Insert_row employee_data jsstring "Employee response"
  | OnSuccess

type_synonym history = "event list"

text \<open>
  \<open>select_single\<close> answers \<open>from('employees').select('id').eq('email', email).single()\<close>,
  \<open>insert_single\<close> answers \<open>insert([{...data, created_at}]).select().single()\<close>,
  \<open>now_ISO\<close> is \<open>new Date().toISOString()\<close>, and \<open>pg_instanceof_Error\<close> says
  whether the client library's error objects are instances of \<open>Error\<close> (it depends on
  the library's version).
\<close>

record backend =
  select_single :: "history \<Rightarrow> jsstring \<Rightarrow> jsstring response"
  insert_single :: "history \<Rightarrow> employee_data \<Rightarrow> jsstring \<Rightarrow> Employee response"
  now_ISO :: "history \<Rightarrow> jsstring"
  pg_instanceof_Error :: bool

text \<open>What a \<open>throw\<close> carries: \<open>new Error(message)\<close>, or the backend's error object.\<close>

datatype thrown =
    JsError jsstring
  | Thrown_pg pg_error

definition checkEmailExists :: "backend \<Rightarrow> history \<Rightarrow> jsstring \<Rightarrow> (thrown + bool) \<times> history" where
  "checkEmailExists B h mail =
     (let r = select_single B h mail;
          h' = h @ [Select_email mail r]
      in case resp_error r of
           None \<Rightarrow> (Inr (resp_data r \<noteq> None), h')
         | Some e \<Rightarrow>
             if pg_code e \<noteq> ascii ''PGRST116'' then (Inl (Thrown_pg e), h')
             else (Inr (resp_data r \<noteq> None), h'))"

text \<open>The duplicate-email message of \<open>createEmployee\<close> (20 code units).\<close>

definition msg_email_already_registered :: jsstring where
  "msg_email_already_registered =
     [0x3053, 0x306E, 0x30E1, 0x30FC, 0x30EB, 0x30A2, 0x30C9, 0x30EC, 0x30B9, 0x306F,
      0x65E2, 0x306B, 0x767B, 0x9332, 0x3055, 0x308C, 0x3066, 0x3044, 0x307E, 0x3059]"

definition createEmployee ::
  "backend \<Rightarrow> history \<Rightarrow> employee_data \<Rightarrow> (thrown + Employee option) \<times> history" where
  "createEmployee B h d =
     (case checkEmailExists B h (email d) of
        (Inl x, h1) \<Rightarrow> (Inl x, h1)
      | (Inr emailExists, h1) \<Rightarrow>
          if emailExists then (Inl (JsError msg_email_already_registered), h1)
          else
            (let t = now_ISO B h1;
                 r = insert_single B h1 d t;
                 h2 = h1 @ [Insert_row d t r]
             in case resp_error r of
                  Some e \<Rightarrow>
                    if pg_code e = ascii ''23505''
                    then (Inl (JsError msg_email_already_registered), h2)
                    else (Inl (Thrown_pg e), h2)
                | None \<Rightarrow> (Inr (resp_data r), h2)))"

section \<open>CSV import modal: getErrorMessage and processFile\<close>

text \<open>
  \<open>String.prototype.toLowerCase\<close> is the platform's Unicode lower-casing; the functions
  that use it take it as the parameter \<open>toLowerCase\<close>.
\<close>

definition field_label :: "jsstring \<Rightarrow> jsstring \<Rightarrow> jsstring" where
  "field_label errorMsg other =
     (if js_includes errorMsg (ascii ''email'') then hdr_email
      else if js_includes errorMsg (ascii ''name'') then hdr_name
      else if js_includes errorMsg (ascii ''company'') then hdr_company_name
      else if js_includes errorMsg (ascii ''department'') then hdr_department
      else if js_includes errorMsg (ascii ''position'') then hdr_position
      else other)"

text \<open>The fallback message: the name, then a fixed text (26 code units).\<close>

definition msg_system_error :: "jsstring \<Rightarrow> jsstring" where
  "msg_system_error employeeName =
     employeeName
       @ [0x306E, 0x767B, 0x9332, 0x306B, 0x5931, 0x6557, 0x3057, 0x307E, 0x3057, 0x305F,
          0x3A, 0x20, 0x30B7, 0x30B9, 0x30C6, 0x30E0, 0x30A8, 0x30E9, 0x30FC, 0x304C,
          0x767A, 0x751F, 0x3057, 0x307E, 0x3057, 0x305F]"

definition getErrorMessage ::
  "(jsstring \<Rightarrow> jsstring) \<Rightarrow> bool \<Rightarrow> thrown \<Rightarrow> jsstring \<Rightarrow> jsstring" where
  "getErrorMessage toLowerCase pgIsError err employeeName =
     (case (case err of
              JsError m \<Rightarrow> Some m
            | Thrown_pg e \<Rightarrow> if pgIsError then Some (pg_message e) else None) of
        None \<Rightarrow> msg_system_error employeeName
      | Some message \<Rightarrow>
          (let errorMsg = toLowerCase message in
           if js_includes errorMsg (ascii ''duplicate key'')
              \<or> js_includes errorMsg (ascii ''unique constraint'')
           then employeeName
                  @ [0x306E, 0x30E1, 0x30FC, 0x30EB, 0x30A2, 0x30C9, 0x30EC, 0x30B9, 0x306F,
                     0x65E2, 0x306B, 0x767B, 0x9332, 0x3055, 0x308C, 0x3066, 0x3044, 0x307E,
                     0x3059]
           else if js_includes errorMsg (ascii ''invalid email'')
              \<or> js_includes errorMsg (ascii ''email format'')
           then employeeName
                  @ [0x306E, 0x30E1, 0x30FC, 0x30EB, 0x30A2, 0x30C9, 0x30EC, 0x30B9, 0x306E,
                     0x5F62, 0x5F0F, 0x304C, 0x6B63, 0x3057, 0x304F, 0x3042, 0x308A, 0x307E,
                     0x305B, 0x3093]
           else if js_includes errorMsg (ascii ''required'')
           then employeeName @ [0x306E]
                  @ field_label errorMsg [0x5FC5, 0x9808, 0x9805, 0x76EE]
                  @ [0x304C, 0x5165, 0x529B, 0x3055, 0x308C, 0x3066, 0x3044, 0x307E, 0x305B,
                     0x3093]
           else if js_includes errorMsg (ascii ''too long'')
           then employeeName @ [0x306E]
                  @ field_label errorMsg [0x30C7, 0x30FC, 0x30BF]
                  @ [0x304C, 0x9577, 0x3059, 0x304E, 0x307E, 0x3059]
           else if js_includes errorMsg (ascii ''database'')
              \<or> js_includes errorMsg (ascii ''db error'')
           then employeeName
                  @ [0x306E, 0x767B, 0x9332, 0x4E2D, 0x306B, 0x30C7, 0x30FC, 0x30BF, 0x30D9,
                     0x30FC, 0x30B9, 0x30A8, 0x30E9, 0x30FC, 0x304C, 0x767A, 0x751F, 0x3057,
                     0x307E, 0x3057, 0x305F]
           else msg_system_error employeeName))"

text \<open>The size message of \<open>processFile\<close> (20 code units).\<close>

definition msg_file_too_large :: jsstring where
  "msg_file_too_large =
     [0x30D5, 0x30A1, 0x30A4, 0x30EB, 0x30B5, 0x30A4, 0x30BA, 0x306F, 0x35, 0x4D, 0x42,
      0x4EE5, 0x4E0B, 0x306B, 0x3057, 0x3066, 0x304F, 0x3060, 0x3055, 0x3044]"

text \<open>The within-file-duplicate message: \<open>${record.name}\<close>, then a fixed text.\<close>

definition msg_duplicate_in_file :: "jsstring \<Rightarrow> jsstring" where
  "msg_duplicate_in_file employeeName =
     employeeName
       @ [0x306E, 0x30E1, 0x30FC, 0x30EB, 0x30A2, 0x30C9, 0x30EC, 0x30B9, 0x304C, 0x43,
          0x53, 0x56, 0x30D5, 0x30A1, 0x30A4, 0x30EB, 0x5185, 0x3067, 0x91CD, 0x8907,
          0x3057, 0x3066, 0x3044, 0x307E, 0x3059]"

text \<open>The local variables of the import loop.\<close>

record import_state =
  imported :: nat
  importErrors :: "jsstring list"
  duplicateEmails :: "jsstring set"

text \<open>
  One turn of \<open>for (const record of result.data)\<close>: the \<open>try\<close> block, with its
  \<open>continue\<close> and its \<open>catch\<close>.
\<close>

definition import_record ::
  "(jsstring \<Rightarrow> jsstring) \<Rightarrow> backend \<Rightarrow> history \<times> import_state \<Rightarrow> employee_data
     \<Rightarrow> history \<times> import_state" where
  "import_record toLowerCase B hs r =
     (let h = fst hs; s = snd hs in
      if email r \<in> duplicateEmails s
      then (h, s\<lparr>importErrors := importErrors s @ [msg_duplicate_in_file (name r)]\<rparr>)
      else
        (let s1 = s\<lparr>duplicateEmails := insert (email r) (duplicateEmails s)\<rparr> in
         case createEmployee B h r of
           (Inr employee, h') \<Rightarrow> (h', s1\<lparr>imported := imported s1 + 1\<rparr>)
         | (Inl err, h') \<Rightarrow>
             (h', s1\<lparr>importErrors := importErrors s1
                        @ [getErrorMessage toLowerCase (pg_instanceof_Error B) err (name r)]\<rparr>)))"

fun import_loop ::
  "(jsstring \<Rightarrow> jsstring) \<Rightarrow> backend \<Rightarrow> history \<times> import_state \<Rightarrow> employee_data list
     \<Rightarrow> history \<times> import_state" where
  "import_loop toLowerCase B hs [] = hs"
| "import_loop toLowerCase B hs (r # rs) =
     import_loop toLowerCase B (import_record toLowerCase B hs r) rs"

text \<open>The view state of the modal that \<open>processFile\<close> sets.\<close>

record modal_state =
  isProcessing :: bool
  ui_errors :: "jsstring list"
  successCount :: nat

text \<open>
  \<open>processFile\<close>, from the state it sets first (\<open>setErrors([])\<close>, \<open>setSuccessCount(0)\<close>)
  to the state it leaves, with the history of the calls it made. Both callbacks of
  \<open>validateCSVData\<close> resolve its promise, so the outer \<open>catch\<close> has nothing to catch;
  a valid result always carries its \<open>data\<close>.
\<close>

definition processFile ::
  "(jsstring \<Rightarrow> jsstring) \<Rightarrow> (File \<Rightarrow> parse_outcome) \<Rightarrow> backend \<Rightarrow> File \<Rightarrow> history
     \<Rightarrow> modal_state \<times> history" where
  "processFile toLowerCase Papa_parse B file h =
     (if file_size file > 5 * 1024 * 1024
      then (\<lparr>isProcessing = False, ui_errors = [msg_file_too_large], successCount = 0\<rparr>, h)
      else
        (let result = validateCSVData Papa_parse file;
             h1 = h @ [Parse_file file]
         in if \<not> valid result
            then (\<lparr>isProcessing = False, ui_errors = errors result, successCount = 0\<rparr>, h1)
            else
              (let records = (case data result of None \<Rightarrow> [] | Some rs \<Rightarrow> rs);
                   hs = import_loop toLowerCase B
                          (h1, \<lparr>imported = 0, importErrors = [], duplicateEmails = {}\<rparr>) records;
                   s = snd hs
               in (\<lparr>isProcessing = False,
                    ui_errors = (if length (importErrors s) > 0 then importErrors s else []),
                    successCount = imported s\<rparr>,
                   if imported s > 0 then fst hs @ [OnSuccess] else fst hs))))"

section \<open>Employee list view\<close>

text \<open>The predicate of \<open>employees.filter\<close> that computes \<open>filteredEmployees\<close>.\<close>

definition matchesSearch :: "(jsstring \<Rightarrow> jsstring) \<Rightarrow> jsstring \<Rightarrow> Employee \<Rightarrow> bool" where
  "matchesSearch toLowerCase searchTerm employee =
     (if searchTerm = [] then True
      else
        (let searchTermLower = toLowerCase searchTerm in
         js_includes (toLowerCase (name employee)) searchTermLower
         \<or> js_includes (toLowerCase (email employee)) searchTermLower
         \<or> js_includes (toLowerCase (department employee)) searchTermLower
         \<or> js_includes (toLowerCase (company_name employee)) searchTermLower
         \<or> js_includes (toLowerCase (position employee)) searchTermLower))"

definition filteredEmployees ::
  "(jsstring \<Rightarrow> jsstring) \<Rightarrow> Employee list \<Rightarrow> jsstring \<Rightarrow> Employee list" where
  "filteredEmployees toLowerCase employees searchTerm =
     filter (matchesSearch toLowerCase searchTerm) employees"

text \<open>
  \<open>handleExportCSV\<close>: the text handed to the download (the file name, which carries
  the date, is left out).
\<close>

definition handleExportCSV ::
  "(jsstring \<Rightarrow> jsstring) \<Rightarrow> Employee list \<Rightarrow> jsstring \<Rightarrow> jsstring" where
  "handleExportCSV toLowerCase employees searchTerm =
     downloadCSV (filteredEmployees toLowerCase employees searchTerm)"

text \<open>The \<open>disabled\<close> attribute of the export button.\<close>

definition exportDisabled :: "(jsstring \<Rightarrow> jsstring) \<Rightarrow> Employee list \<Rightarrow> jsstring \<Rightarrow> bool" where
  "exportDisabled toLowerCase employees searchTerm =
     (length (filteredEmployees toLowerCase employees searchTerm) = 0)"

section \<open>Reading the history\<close>

text \<open>
  The emails of the existence queries in a history, in order. \<open>createEmployee\<close> starts
  with exactly one such query, so they are the \<open>createEmployee\<close> calls that were made.
\<close>

fun select_emails :: "history \<Rightarrow> jsstring list" where
  "select_emails [] = []"
| "select_emails (Select_email m r # h) = m # select_emails h"
| "select_emails (Parse_file f # h) = select_emails h"
| "select_emails (Insert_row d t r # h) = select_emails h"
| "select_emails (OnSuccess # h) = select_emails h"

text \<open>The number of inserts the backend answered without an error.\<close>

fun accepted_inserts :: "history \<Rightarrow> nat" where
  "accepted_inserts [] = 0"
| "accepted_inserts (Insert_row d t r # h) =
     (if resp_error r = None then 1 else 0) + accepted_inserts h"
| "accepted_inserts (Parse_file f # h) = accepted_inserts h"
| "accepted_inserts (Select_email m r # h) = accepted_inserts h"
| "accepted_inserts (OnSuccess # h) = accepted_inserts h"

text \<open>
  The history of \<open>createEmployee\<close> calls made strictly in turn: for each row its
  existence query with the answer, then, when the query found nothing, its insert with
  the answer, and only then the query of the next row. Every request is answered on
  the history that already holds the answers of all requests before it, so no two
  calls overlap.
\<close>

fun calls_in_turn :: "backend \<Rightarrow> history \<Rightarrow> employee_data list \<Rightarrow> history" where
  "calls_in_turn B h [] = h"
| "calls_in_turn B h (r # rs) =
     (let q = select_single B h (email r);
          h1 = h @ [Select_email (email r) q];
          t = now_ISO B h1
      in if resp_data q = None
            \<and> (case resp_error q of None \<Rightarrow> True | Some e \<Rightarrow> pg_code e = ascii ''PGRST116'')
         then calls_in_turn B (h1 @ [Insert_row r t (insert_single B h1 r t)]) rs
         else calls_in_turn B h1 rs)"

text \<open>
  The rows whose email does not occur in an earlier row of the list, in order
  (\<open>first_rows_from D\<close>: nor in the set \<open>D\<close>).
\<close>

definition first_rows :: "employee_data list \<Rightarrow> employee_data list" where
  "first_rows rs =
     map snd (filter (\<lambda>(i, r). email r \<notin> email ` set (take i rs)) (numbered rs))"

definition first_rows_from :: "jsstring set \<Rightarrow> employee_data list \<Rightarrow> employee_data list" where
  "first_rows_from D rs =
     map snd (filter (\<lambda>(i, r). email r \<notin> D \<union> email ` set (take i rs)) (numbered rs))"

section \<open>Sample platform for the worked examples\<close>

text \<open>
  The worked examples below run the functions on concrete inputs. They need one
  concrete lower-casing and one concrete backend: lower-casing of the ASCII letters,
  and an in-memory table that answers from the rows inserted so far and refuses a
  second row with the same email.
\<close>

definition toLowerCase_ascii :: "jsstring \<Rightarrow> jsstring" where
  "toLowerCase_ascii s = map (\<lambda>c. if 0x41 \<le> c \<and> c \<le> 0x5A then c + 0x20 else c) s"

fun stored :: "history \<Rightarrow> Employee list" where
  "stored [] = []"
| "stored (Insert_row d t r # h) =
     (case resp_data r of None \<Rightarrow> stored h | Some e \<Rightarrow> e # stored h)"
| "stored (Parse_file f # h) = stored h"
| "stored (Select_email m r # h) = stored h"
| "stored (OnSuccess # h) = stored h"

definition sample_backend :: backend where
  "sample_backend =
     \<lparr>select_single = (\<lambda>h mail.
        case find (\<lambda>e. email e = mail) (stored h) of
          Some e \<Rightarrow> \<lparr>resp_data = Some (emp_id e), resp_error = None\<rparr>
        | None \<Rightarrow> \<lparr>resp_data = None,
                    resp_error = Some \<lparr>pg_code = ascii ''PGRST116'', pg_message = []\<rparr>\<rparr>),
      insert_single = (\<lambda>h d t.
        if email d \<in> set (map email (stored h))
        then \<lparr>resp_data = None,
              resp_error = Some \<lparr>pg_code = ascii ''23505'', pg_message = []\<rparr>\<rparr>
        else \<lparr>resp_data = Some \<lparr>name = name d, email = email d,
                                 company_name = company_name d, department = department d,
                                 position = position d,
                                 emp_id = Number_toString (length (stored h)),
                                 created_at = t\<rparr>,
              resp_error = None\<rparr>),
      now_ISO = (\<lambda>h. []),
      pg_instanceof_Error = True\<rparr>"

text \<open>
  Three rows of an import (the second repeats the email of the first), the stored row
  of the first, and a backend whose insert always reports a unique-constraint
  violation, as it would when another client inserts the same email between the
  existence query and the insert.
\<close>

definition yamada :: employee_data where
  "yamada = \<lparr>name = ascii ''Yamada'', email = ascii ''y@ex.co'', company_name = ascii ''Sample'',
              department = ascii ''Sales'', position = ascii ''Manager''\<rparr>"

definition yamada_again :: employee_data where
  "yamada_again = \<lparr>name = ascii ''Yamada T'', email = ascii ''y@ex.co'', company_name = ascii ''Sample'',
              department = ascii ''Sales'', position = ascii ''Chief''\<rparr>"

definition suzuki :: employee_data where
  "suzuki = \<lparr>name = ascii ''Suzuki'', email = ascii ''s@ex.co'', company_name = ascii ''Sample'',
              department = ascii ''Dev'', position = ascii ''Staff''\<rparr>"

definition yamada_row :: Employee where
  "yamada_row = \<lparr>name = ascii ''Yamada'', email = ascii ''y@ex.co'', company_name = ascii ''Sample'',
              department = ascii ''Sales'', position = ascii ''Manager'', emp_id = ascii ''0'', created_at = []\<rparr>"

definition racing_backend :: backend where
  "racing_backend = sample_backend\<lparr>insert_single := (\<lambda>h d t. \<lparr>resp_data = None,
              resp_error = Some \<lparr>pg_code = ascii ''23505'', pg_message = []\<rparr>\<rparr>)\<rparr>"

text \<open>
  A small reader for the dialect the export writes, standing in for the third-party
  parser in the worked examples. It drops a leading byte order mark, splits the text
  into lines at the line feeds and the lines into cells at the commas that stand
  outside double quotes, drops the quotes, takes the first line as the header row and
  builds one row object per further line.
\<close>

fun cells :: "bool \<Rightarrow> jsstring \<Rightarrow> jsstring list" where
  "cells q [] = [[]]"
| "cells q (c # cs) =
     (if c = 0x22 then cells (\<not> q) cs
      else if c = 0x2C \<and> \<not> q then [] # cells q cs
      else (case cells q cs of [] \<Rightarrow> [[c]] | x # xs \<Rightarrow> (c # x) # xs))"

fun text_lines :: "bool \<Rightarrow> jsstring \<Rightarrow> jsstring list" where
  "text_lines q [] = [[]]"
| "text_lines q (c # cs) =
     (if c = 0x0A \<and> \<not> q then [] # text_lines q cs
      else (case text_lines (if c = 0x22 then \<not> q else q) cs of
              [] \<Rightarrow> [[c]]
            | x # xs \<Rightarrow> (c # x) # xs))"

definition read_csv :: "File \<Rightarrow> parse_outcome" where
  "read_csv f =
     (case map (cells False)
             (text_lines False
                (case file_text f of [] \<Rightarrow> [] | c # cs \<Rightarrow> if c = 0xFEFF then cs else c # cs)) of
        [] \<Rightarrow> Parse_error []
      | header # rows \<Rightarrow>
          Complete \<lparr>meta_fields = Some header,
                    results_data = map (\<lambda>cs. map_of (zip header cs)) rows\<rparr>)"


text \<open>
  The file that holds a text in UTF-8 (the texts of the examples hold no surrogates),
  and a record without a name.
\<close>

definition utf8_length :: "jsstring \<Rightarrow> nat" where
  "utf8_length t = sum_list (map (\<lambda>c. if c < 0x80 then 1 else if c < 0x800 then 2 else 3) t)"

definition as_file :: "jsstring \<Rightarrow> File" where
  "as_file t = \<lparr>file_size = utf8_length t, file_text = t\<rparr>"

definition nameless :: employee_data where
  "nameless = \<lparr>name = [], email = ascii ''s@ex.co'', company_name = ascii ''Sample'',
                department = ascii ''Dev'', position = ascii ''Staff''\<rparr>"

definition suzuki_row :: Employee where
  "suzuki_row = \<lparr>name = ascii ''Suzuki'', email = ascii ''s@ex.co'', company_name = ascii ''Sample'',
              department = ascii ''Dev'', position = ascii ''Staff'', emp_id = ascii ''1'', created_at = []\<rparr>"





lemmas sample_defs =
  sample_backend_def yamada_def yamada_again_def suzuki_def yamada_row_def suzuki_row_def
  racing_backend_def nameless_def

section \<open>Strings: basic facts\<close>

lemma js_includes_sublist: "js_includes s t \<longleftrightarrow> sublist t s"
  by (induction s) (auto simp: sublist_Cons_right)

lemma join_Cons: "join sep (x # xs) = x @ (if xs = [] then [] else sep @ join sep xs)"
  by (cases xs) simp_all

lemmas hdr_defs =
  hdr_name_def hdr_email_def hdr_company_name_def hdr_department_def hdr_position_def

section \<open>The export's header row (C2)\<close>

text \<open>
  C2, as the spec has it: the exported text begins with the byte order mark and a header
  row in the import's required order (company, name, email, department, position).
  The export writes name, email, company, department, position instead, so the claim
  fails already on a list of one record.
\<close>

theorem export_header_order_counterexample:
  "\<not> prefix (0xFEFF # join [0x2C] (map fst REQUIRED_HEADERS))
        (downloadCSV [\<lparr>name = [0x41], email = [0x61, 0x40, 0x62, 0x2E, 0x63, 0x6F],
                       company_name = [0x43], department = [0x44], position = [0x50]\<rparr>])"
  by (simp add: downloadCSV_def csvContent_def export_headers_def REQUIRED_HEADERS_def hdr_defs)

text \<open>
  C2, amended: for every record list the exported text is U+FEFF, then the header row
  name, email, company, department, position joined by commas, then (when there are
  records) a line feed and the data lines. The five column names are those the import
  requires, each once; only their order differs.
\<close>

theorem export_header_row:
  "downloadCSV rows =
     0xFEFF # join [0x2C] [hdr_name, hdr_email, hdr_company_name, hdr_department, hdr_position]
       @ (if rows = [] then [] else 0x0A # join [0x0A] (map export_line rows))
   \<and> set export_headers = set (map fst REQUIRED_HEADERS)
   \<and> distinct export_headers"
proof -
  have "set export_headers = set (map fst REQUIRED_HEADERS)"
    by (auto simp: export_headers_def REQUIRED_HEADERS_def)
  moreover have "distinct export_headers"
    by (simp add: export_headers_def hdr_defs)
  moreover have "downloadCSV rows =
     0xFEFF # join [0x2C] [hdr_name, hdr_email, hdr_company_name, hdr_department, hdr_position]
       @ (if rows = [] then [] else 0x0A # join [0x0A] (map export_line rows))"
    by (simp add: downloadCSV_def csvContent_def join_Cons export_headers_def)
  ultimately show ?thesis by simp
qed

section \<open>The size limit (C5)\<close>

text \<open>
  C5: a file larger than 5 MB (5 * 1024 * 1024 bytes) is rejected with the size message;
  the history is left as it was, so the file was not handed to the parser and no
  request went to the backend. This holds whatever the parser and the backend are.
  (In the example the text of the file is left empty: \<open>processFile\<close> reads the size
  only.)
\<close>

theorem oversize_rejected:
  "file_size file > 5 * 1024 * 1024 \<Longrightarrow>
   processFile toLowerCase Papa_parse B file h =
     (\<lparr>isProcessing = False, ui_errors = [msg_file_too_large], successCount = 0\<rparr>, h)"
  by (simp add: processFile_def)

theorem oversize_rejected_witness:
  "file_size \<lparr>file_size = 5242881, file_text = []\<rparr> > 5 * 1024 * 1024
   \<and> processFile toLowerCase_ascii read_csv sample_backend
         \<lparr>file_size = 5242881, file_text = []\<rparr> []
       = (\<lparr>isProcessing = False, ui_errors = [msg_file_too_large], successCount = 0\<rparr>, [])"
  using oversize_rejected [of "\<lparr>file_size = 5242881, file_text = []\<rparr>" toLowerCase_ascii
      read_csv sample_backend "[]"]
  by simp

section \<open>The import loop: what it calls and what it counts\<close>

lemma select_emails_append: "select_emails (h @ k) = select_emails h @ select_emails k"
  by (induction h rule: select_emails.induct) simp_all

lemma accepted_inserts_append: "accepted_inserts (h @ k) = accepted_inserts h + accepted_inserts k"
  by (induction h rule: accepted_inserts.induct) simp_all

lemma checkEmailExists_history:
  "\<exists>r. snd (checkEmailExists B h m) = h @ [Select_email m r]"
  by (simp add: checkEmailExists_def Let_def split: option.split)

lemma createEmployee_events:
  "\<exists>evs. snd (createEmployee B h d) = h @ evs \<and> select_emails evs = [email d]
     \<and> accepted_inserts evs = (case fst (createEmployee B h d) of Inl x \<Rightarrow> 0 | Inr e \<Rightarrow> 1)"
  by (simp add: createEmployee_def checkEmailExists_def Let_def split: option.split)

lemma numbered_Nil: "numbered [] = []"
  by (simp add: numbered_def)

lemma numbered_Cons: "numbered (x # xs) = (0, x) # map (\<lambda>(i, y). (Suc i, y)) (numbered xs)"
proof -
  have "[0..<Suc (length xs)] = 0 # map Suc [0..<length xs]"
    by (simp add: upt_conv_Cons map_Suc_upt del: upt_Suc)
  then show ?thesis
    by (simp add: numbered_def zip_map1 del: upt_Suc)
qed

lemma first_rows_from_Nil: "first_rows_from D [] = []"
  by (simp add: first_rows_from_def numbered_Nil)

lemma first_rows_from_Cons:
  "first_rows_from D (r # rs) =
     (if email r \<in> D then first_rows_from D rs
      else r # first_rows_from (insert (email r) D) rs)"
proof -
  define P where
    "P = (\<lambda>D (rs :: employee_data list) (p :: nat \<times> employee_data).
            email (snd p) \<notin> D \<union> email ` set (take (fst p) rs))"
  let ?shift = "\<lambda>(i, y). (Suc i, y)"
  have frf: "first_rows_from D rs = map snd (filter (P D rs) (numbered rs))" for D rs
    by (simp add: first_rows_from_def P_def case_prod_unfold)
  have shift: "P D (r # rs) \<circ> ?shift = P (insert (email r) D) rs"
    by (auto simp: fun_eq_iff P_def)
  have P0: "P D (r # rs) (0, r) \<longleftrightarrow> email r \<notin> D"
    by (simp add: P_def)
  have unshift: "map snd (map ?shift xs) = map snd xs" for xs :: "(nat \<times> employee_data) list"
    by (simp add: o_def case_prod_unfold)
  have "filter (P D (r # rs)) (map ?shift (numbered rs))
          = map ?shift (filter (P (insert (email r) D) rs) (numbered rs))"
    unfolding filter_map shift ..
  then have "first_rows_from D (r # rs) =
      (if email r \<in> D then [] else [r]) @ first_rows_from (insert (email r) D) rs"
    unfolding frf numbered_Cons by (simp add: P0 unshift)
  then show ?thesis
    by (simp add: insert_absorb)
qed

lemma first_rows_from_empty: "first_rows rs = first_rows_from {} rs"
  by (simp add: first_rows_def first_rows_from_def)

lemma import_record_duplicate:
  "email r \<in> duplicateEmails s \<Longrightarrow>
   import_record L B (h, s) r =
     (h, s\<lparr>importErrors := importErrors s @ [msg_duplicate_in_file (name r)]\<rparr>)"
  by (simp add: import_record_def)

lemma import_record_fresh:
  assumes "email r \<notin> duplicateEmails s"
  shows "\<exists>evs. fst (import_record L B (h, s) r) = h @ evs
           \<and> fst (import_record L B (h, s) r) = snd (createEmployee B h r)
           \<and> select_emails evs = [email r]
           \<and> imported (snd (import_record L B (h, s) r)) = imported s + accepted_inserts evs
           \<and> length (importErrors (snd (import_record L B (h, s) r)))
               = length (importErrors s) + (1 - accepted_inserts evs)
           \<and> duplicateEmails (snd (import_record L B (h, s) r))
               = insert (email r) (duplicateEmails s)"
proof -
  obtain evs where e: "snd (createEmployee B h r) = h @ evs" "select_emails evs = [email r]"
    "accepted_inserts evs = (case fst (createEmployee B h r) of Inl x \<Rightarrow> 0 | Inr e \<Rightarrow> 1)"
    using createEmployee_events by blast
  show ?thesis
    using assms e
    by (cases "createEmployee B h r"; cases "fst (createEmployee B h r)")
       (auto simp: import_record_def Let_def)
qed

lemma import_loop_append:
  "import_loop L B hs (xs @ ys) = import_loop L B (import_loop L B hs xs) ys"
  by (induction xs arbitrary: hs) simp_all

lemma import_loop_events:
  "\<exists>evs. fst (import_loop L B (h, s) rs) = h @ evs
     \<and> select_emails evs = map email (first_rows_from (duplicateEmails s) rs)
     \<and> imported (snd (import_loop L B (h, s) rs)) = imported s + accepted_inserts evs
     \<and> imported (snd (import_loop L B (h, s) rs))
          + length (importErrors (snd (import_loop L B (h, s) rs)))
        = imported s + length (importErrors s) + length rs
     \<and> duplicateEmails (snd (import_loop L B (h, s) rs)) = duplicateEmails s \<union> email ` set rs"
proof (induction rs arbitrary: h s)
  case Nil
  then show ?case by (simp add: first_rows_from_Nil)
next
  case (Cons r rs)
  show ?case
  proof (cases "email r \<in> duplicateEmails s")
    case True
    let ?s1 = "s\<lparr>importErrors := importErrors s @ [msg_duplicate_in_file (name r)]\<rparr>"
    from Cons.IH [of h ?s1] obtain evs where
      "fst (import_loop L B (h, ?s1) rs) = h @ evs"
      "select_emails evs = map email (first_rows_from (duplicateEmails ?s1) rs)"
      "imported (snd (import_loop L B (h, ?s1) rs)) = imported ?s1 + accepted_inserts evs"
      "imported (snd (import_loop L B (h, ?s1) rs))
          + length (importErrors (snd (import_loop L B (h, ?s1) rs)))
        = imported ?s1 + length (importErrors ?s1) + length rs"
      "duplicateEmails (snd (import_loop L B (h, ?s1) rs)) = duplicateEmails ?s1 \<union> email ` set rs"
      by blast
    with True show ?thesis
      by (auto simp: import_record_duplicate first_rows_from_Cons intro!: exI [of _ evs])
  next
    case False
    obtain h1 s1 where hs1: "import_record L B (h, s) r = (h1, s1)"
      by (cases "import_record L B (h, s) r")
    from import_record_fresh [OF False, of L B h] hs1 obtain e1 where e1:
      "h1 = h @ e1" "select_emails e1 = [email r]"
      "imported s1 = imported s + accepted_inserts e1"
      "length (importErrors s1) = length (importErrors s) + (1 - accepted_inserts e1)"
      "duplicateEmails s1 = insert (email r) (duplicateEmails s)"
      by auto
    have le: "accepted_inserts e1 \<le> 1"
      using createEmployee_events [of B h r] import_record_fresh [OF False, of L B h] hs1 e1(1)
      by (auto split: sum.splits)
    from Cons.IH [of h1 s1] obtain e2 where e2:
      "fst (import_loop L B (h1, s1) rs) = h1 @ e2"
      "select_emails e2 = map email (first_rows_from (duplicateEmails s1) rs)"
      "imported (snd (import_loop L B (h1, s1) rs)) = imported s1 + accepted_inserts e2"
      "imported (snd (import_loop L B (h1, s1) rs))
          + length (importErrors (snd (import_loop L B (h1, s1) rs)))
        = imported s1 + length (importErrors s1) + length rs"
      "duplicateEmails (snd (import_loop L B (h1, s1) rs)) = duplicateEmails s1 \<union> email ` set rs"
      by blast
    show ?thesis
      using False hs1 e1 e2 le
      by (auto simp: first_rows_from_Cons select_emails_append accepted_inserts_append
            intro!: exI [of _ "e1 @ e2"])
  qed
qed

lemma createEmployee_in_turn: "snd (createEmployee B h r) = calls_in_turn B h [r]"
  by (simp add: createEmployee_def checkEmailExists_def Let_def split: option.split)

lemma calls_in_turn_Cons:
  "calls_in_turn B h (r # rs) = calls_in_turn B (snd (createEmployee B h r)) rs"
  by (simp add: createEmployee_def checkEmailExists_def Let_def split: option.split)

lemma import_loop_history:
  "fst (import_loop L B (h, s) rs) = calls_in_turn B h (first_rows_from (duplicateEmails s) rs)"
proof (induction rs arbitrary: h s)
  case Nil
  then show ?case by (simp add: first_rows_from_Nil)
next
  case (Cons r rs)
  show ?case
  proof (cases "email r \<in> duplicateEmails s")
    case True
    then show ?thesis
      using Cons.IH [of h "s\<lparr>importErrors := importErrors s @ [msg_duplicate_in_file (name r)]\<rparr>"]
      by (simp add: import_record_duplicate first_rows_from_Cons)
  next
    case False
    obtain h1 s1 where hs1: "import_record L B (h, s) r = (h1, s1)"
      by (cases "import_record L B (h, s) r")
    from import_record_fresh [OF False, of L B h] hs1
    have "h1 = snd (createEmployee B h r)" "duplicateEmails s1 = insert (email r) (duplicateEmails s)"
      by auto
    then show ?thesis
      using False hs1 Cons.IH [of h1 s1]
      by (simp add: first_rows_from_Cons calls_in_turn_Cons del: calls_in_turn.simps)
  qed
qed

section \<open>Duplicate emails at creation (C6)\<close>

text \<open>
  C6: when the existence query answers with a row (and no error), \<open>createEmployee\<close>
  throws the duplicate-email error and the history gains the query only: the insert is
  not attempted. When the query finds nothing and the insert then answers with error
  code 23505, \<open>createEmployee\<close> throws the same error.
\<close>

theorem createEmployee_duplicate_email:
  "let q = select_single B h (email d);
       h1 = h @ [Select_email (email d) q];
       t = now_ISO B h1;
       a = insert_single B h1 d t
   in (resp_data q \<noteq> None \<and> resp_error q = None \<longrightarrow>
         createEmployee B h d = (Inl (JsError msg_email_already_registered), h1))
    \<and> (resp_data q = None
         \<and> (case resp_error q of None \<Rightarrow> True | Some e \<Rightarrow> pg_code e = ascii ''PGRST116'')
         \<and> (case resp_error a of None \<Rightarrow> False | Some e \<Rightarrow> pg_code e = ascii ''23505'') \<longrightarrow>
         createEmployee B h d
           = (Inl (JsError msg_email_already_registered), h1 @ [Insert_row d t a]))"
  by (auto simp: createEmployee_def checkEmailExists_def Let_def split: option.splits)

theorem createEmployee_duplicate_email_witness:
  "createEmployee sample_backend
      [Insert_row yamada [] \<lparr>resp_data = Some yamada_row, resp_error = None\<rparr>] yamada_again
     = (Inl (JsError msg_email_already_registered),
        [Insert_row yamada [] \<lparr>resp_data = Some yamada_row, resp_error = None\<rparr>,
         Select_email (email yamada_again) \<lparr>resp_data = Some (ascii ''0''), resp_error = None\<rparr>])
   \<and> createEmployee racing_backend [] yamada
     = (Inl (JsError msg_email_already_registered),
        [Select_email (email yamada)
           \<lparr>resp_data = None, resp_error = Some \<lparr>pg_code = ascii ''PGRST116'', pg_message = []\<rparr>\<rparr>,
         Insert_row yamada []
           \<lparr>resp_data = None, resp_error = Some \<lparr>pg_code = ascii ''23505'', pg_message = []\<rparr>\<rparr>])"
  using createEmployee_duplicate_email
          [where B = sample_backend and d = yamada_again
             and h = "[Insert_row yamada [] \<lparr>resp_data = Some yamada_row, resp_error = None\<rparr>]"]
        createEmployee_duplicate_email [where B = racing_backend and h = "[]" and d = yamada]
  by (simp add: sample_defs Let_def ascii_def)

section \<open>One create call per row (C7)\<close>

text \<open>
  C7, as the spec has it: the loop makes one create call per valid row. A row that
  repeats the email of an earlier row gets no call, so two rows with one email give one
  call, not two.
\<close>

theorem one_call_per_row_counterexample:
  "length (select_emails (fst (import_loop toLowerCase_ascii sample_backend
       ([], \<lparr>imported = 0, importErrors = [], duplicateEmails = {}\<rparr>) [yamada, yamada_again])))
     \<noteq> length [yamada, yamada_again]"
  by (simp add: sample_defs import_record_def createEmployee_def checkEmailExists_def Let_def ascii_def)

text \<open>
  C7, amended: from its initial state the loop makes one \<open>createEmployee\<close> call per row
  whose email did not occur in an earlier row, in row order and strictly in turn: the
  history it leaves is that of \<open>calls_in_turn\<close>, in which every call has its answers
  before the next call makes its first request, so no two calls are in flight at once.
  The count of imported rows is the number of inserts that were answered without an
  error, and every row adds one to the count or one message to the errors.
\<close>

theorem import_loop_calls:
  "let hs = import_loop L B (h, \<lparr>imported = 0, importErrors = [], duplicateEmails = {}\<rparr>) records;
       new = drop (length h) (fst hs)
   in fst hs = calls_in_turn B h (first_rows records)
      \<and> fst hs = h @ new
      \<and> select_emails new = map email (first_rows records)
      \<and> imported (snd hs) = accepted_inserts new
      \<and> imported (snd hs) + length (importErrors (snd hs)) = length records"
proof -
  let ?s0 = "\<lparr>imported = 0, importErrors = [], duplicateEmails = {}\<rparr>"
  obtain evs where
    "fst (import_loop L B (h, ?s0) records) = h @ evs"
    "select_emails evs = map email (first_rows_from {} records)"
    "imported (snd (import_loop L B (h, ?s0) records)) = accepted_inserts evs"
    "imported (snd (import_loop L B (h, ?s0) records))
       + length (importErrors (snd (import_loop L B (h, ?s0) records)))
       = length records"
    using import_loop_events [of L B h ?s0 records] by auto
  moreover have "fst (import_loop L B (h, ?s0) records) = calls_in_turn B h (first_rows records)"
    by (simp add: import_loop_history first_rows_from_empty)
  ultimately show ?thesis
    by (simp add: Let_def first_rows_from_empty)
qed

theorem import_loop_calls_witness:
  "fst (import_loop toLowerCase_ascii sample_backend
          ([], \<lparr>imported = 0, importErrors = [], duplicateEmails = {}\<rparr>)
          [yamada, yamada_again, suzuki])
     = [Select_email (email yamada)
          \<lparr>resp_data = None, resp_error = Some \<lparr>pg_code = ascii ''PGRST116'', pg_message = []\<rparr>\<rparr>,
        Insert_row yamada [] \<lparr>resp_data = Some yamada_row, resp_error = None\<rparr>,
        Select_email (email suzuki)
          \<lparr>resp_data = None, resp_error = Some \<lparr>pg_code = ascii ''PGRST116'', pg_message = []\<rparr>\<rparr>,
        Insert_row suzuki [] \<lparr>resp_data = Some suzuki_row, resp_error = None\<rparr>]
   \<and> imported (snd (import_loop toLowerCase_ascii sample_backend
          ([], \<lparr>imported = 0, importErrors = [], duplicateEmails = {}\<rparr>)
          [yamada, yamada_again, suzuki])) = 2
   \<and> importErrors (snd (import_loop toLowerCase_ascii sample_backend
          ([], \<lparr>imported = 0, importErrors = [], duplicateEmails = {}\<rparr>)
          [yamada, yamada_again, suzuki])) = [msg_duplicate_in_file (name yamada_again)]"
proof -
  have first: "first_rows [yamada, yamada_again, suzuki] = [yamada, suzuki]"
    by (simp add: first_rows_from_empty first_rows_from_Cons first_rows_from_Nil sample_defs ascii_def)
  have errs: "importErrors (snd (import_loop toLowerCase_ascii sample_backend
          ([], \<lparr>imported = 0, importErrors = [], duplicateEmails = {}\<rparr>)
          [yamada, yamada_again, suzuki])) = [msg_duplicate_in_file (name yamada_again)]"
    by (simp add: import_record_def createEmployee_def checkEmailExists_def Let_def sample_defs
          ascii_def)
  have turn: "calls_in_turn sample_backend [] [yamada, suzuki]
     = [Select_email (email yamada)
          \<lparr>resp_data = None, resp_error = Some \<lparr>pg_code = ascii ''PGRST116'', pg_message = []\<rparr>\<rparr>,
        Insert_row yamada [] \<lparr>resp_data = Some yamada_row, resp_error = None\<rparr>,
        Select_email (email suzuki)
          \<lparr>resp_data = None, resp_error = Some \<lparr>pg_code = ascii ''PGRST116'', pg_message = []\<rparr>\<rparr>,
        Insert_row suzuki [] \<lparr>resp_data = Some suzuki_row, resp_error = None\<rparr>]"
    by (simp add: Let_def sample_defs ascii_def)
  show ?thesis
    using import_loop_calls [where L = toLowerCase_ascii and B = sample_backend and h = "[]"
        and records = "[yamada, yamada_again, suzuki]"] errs
    by (simp add: Let_def first turn del: import_loop.simps calls_in_turn.simps)
qed

section \<open>Rows that repeat an email (C8)\<close>

text \<open>
  C8: a row whose email equals that of an earlier row of the same import only appends
  the within-file-duplicate message: the history, the count and the set of seen emails
  stay as the earlier rows left them. A row whose email is new is handed to
  \<open>createEmployee\<close>.
\<close>

theorem duplicate_rows_skipped:
  "let s0 = \<lparr>imported = 0, importErrors = [], duplicateEmails = {}\<rparr>;
       st = import_loop L B (h, s0) pre
   in (email r \<in> email ` set pre \<longrightarrow>
         import_loop L B (h, s0) (pre @ r # post)
           = import_loop L B
               (fst st, (snd st)\<lparr>importErrors := importErrors (snd st) @ [msg_duplicate_in_file (name r)]\<rparr>)
               post)
    \<and> (email r \<notin> email ` set pre \<longrightarrow>
         import_loop L B (h, s0) (pre @ r # post) = import_loop L B (import_record L B st r) post
         \<and> fst (import_record L B st r) = snd (createEmployee B (fst st) r))"
proof -
  let ?s0 = "\<lparr>imported = 0, importErrors = [], duplicateEmails = {}\<rparr>"
  obtain h1 s1 where st: "import_loop L B (h, ?s0) pre = (h1, s1)"
    by (cases "import_loop L B (h, ?s0) pre")
  have seen: "duplicateEmails s1 = email ` set pre"
    using import_loop_events [of L B h ?s0 pre] st by auto
  have step: "import_loop L B (h, ?s0) (pre @ r # post) = import_loop L B (import_record L B (h1, s1) r) post"
    by (simp add: import_loop_append st)
  have dup: "email r \<in> email ` set pre \<Longrightarrow>
      import_record L B (h1, s1) r
        = (h1, s1\<lparr>importErrors := importErrors s1 @ [msg_duplicate_in_file (name r)]\<rparr>)"
    using seen by (simp add: import_record_duplicate)
  have fresh: "email r \<notin> email ` set pre \<Longrightarrow>
      fst (import_record L B (h1, s1) r) = snd (createEmployee B h1 r)"
    using seen import_record_fresh [of r s1 L B h1] by auto
  show ?thesis
    using step dup fresh by (simp add: Let_def st)
qed

theorem duplicate_rows_skipped_witness:
  "email yamada_again \<in> email ` set [yamada]
   \<and> email suzuki \<notin> email ` set [yamada]
   \<and> import_loop toLowerCase_ascii sample_backend
       ([], \<lparr>imported = 0, importErrors = [], duplicateEmails = {}\<rparr>) [yamada, yamada_again, suzuki]
     = import_loop toLowerCase_ascii sample_backend
         (fst (import_loop toLowerCase_ascii sample_backend
            ([], \<lparr>imported = 0, importErrors = [], duplicateEmails = {}\<rparr>) [yamada]),
          \<lparr>imported = 1, importErrors = [msg_duplicate_in_file (name yamada_again)],
            duplicateEmails = {email yamada}\<rparr>) [suzuki]
   \<and> select_emails (fst (import_loop toLowerCase_ascii sample_backend
       ([], \<lparr>imported = 0, importErrors = [], duplicateEmails = {}\<rparr>) [yamada, suzuki]))
     = [email yamada, email suzuki]"
  using duplicate_rows_skipped [where r = yamada_again and pre = "[yamada]" and L = toLowerCase_ascii
            and B = sample_backend and h = "[]" and post = "[suzuki]"]
        duplicate_rows_skipped [where r = suzuki and pre = "[yamada]" and L = toLowerCase_ascii
            and B = sample_backend and h = "[]" and post = "[]"]
  by (simp add: sample_defs import_record_def createEmployee_def checkEmailExists_def Let_def ascii_def)

section \<open>Validation: what a valid result is\<close>

lemma valid_complete:
  assumes "valid (complete results)"
  shows "data (complete results) = Some (map toRecord (results_data results))"
    and "results_data results \<noteq> []"
    and "errors (complete results) = []"
proof -
  let ?rows = "numbered (results_data results)"
  from assms have none: "concat (map (\<lambda>(i, row). rowErrors (i + 2) row) ?rows) = []"
    and some: "filter (\<lambda>(i, row). \<not> length (rowErrors (i + 2) row) > 0) ?rows \<noteq> []"
    and errs: "errors (complete results) = []"
    by (simp_all add: complete_def Let_def)
  from none have all: "filter (\<lambda>(i, row). rowErrors (Suc (Suc i)) row = []) ?rows = ?rows"
    by (auto simp: filter_id_conv)
  have rows: "map (\<lambda>(i, row). toRecord row) ?rows = map toRecord (results_data results)"
  proof -
    have "map (\<lambda>(i, row). toRecord row) ?rows = map toRecord (map snd ?rows)"
      by (simp add: o_def case_prod_unfold)
    also have "map snd ?rows = results_data results"
      by (simp add: numbered_def)
    finally show ?thesis .
  qed
  show "data (complete results) = Some (map toRecord (results_data results))"
    by (simp add: complete_def Let_def all rows)
  from some show "results_data results \<noteq> []"
    by (auto simp: numbered_def)
  from errs show "errors (complete results) = []" .
qed

lemma valid_validateCSVData:
  assumes "valid (validateCSVData P file)"
  shows "\<exists>results. P file = Complete results \<and> results_data results \<noteq> []
           \<and> data (validateCSVData P file) = Some (map toRecord (results_data results))
           \<and> errors (validateCSVData P file) = []"
  using assms valid_complete [of "case P file of Complete r \<Rightarrow> r"]
  by (cases "P file") (auto simp: validateCSVData_def)

lemmas rx_defs =
  email_regex_test_def email_rx_def Plus_def Chr_def is_local_char_def is_domain_char_def
  is_alpha_def is_digit_def

lemmas validate_defs =
  validateCSVData_def complete_def rowErrors_def blank_cell_def trim_def is_white_space_def
  REQUIRED_HEADERS_def export_headers_def export_row_def numbered_def toRecord_def cell_def

lemmas export_defs =
  downloadCSV_def csvContent_def export_line_def quoted_def export_headers_def


lemma toRecord_export_row: "toRecord (export_row d) = d"
  by (simp add: toRecord_def cell_def export_row_def export_headers_def hdr_defs)

lemma rowErrors_yamada: "rowErrors n (export_row yamada) = []"
  by (simp add: validate_defs rx_defs hdr_defs sample_defs ascii_def)

lemma rowErrors_suzuki: "rowErrors n (export_row suzuki) = []"
  by (simp add: validate_defs rx_defs hdr_defs sample_defs ascii_def)

lemma rowErrors_nameless: "rowErrors n (export_row nameless) = [msg_required n hdr_name]"
  by (simp add: validate_defs rx_defs hdr_defs sample_defs ascii_def)

lemma read_header_only:
  "read_csv (as_file (downloadCSV ([] :: employee_data list)))
     = Complete \<lparr>meta_fields = Some export_headers, results_data = []\<rparr>"
  by (simp add: read_csv_def as_file_def export_defs hdr_defs)

lemma read_yamada_nameless:
  "read_csv (as_file (downloadCSV [yamada, nameless]))
     = Complete \<lparr>meta_fields = Some export_headers,
                  results_data = [export_row yamada, export_row nameless]\<rparr>"
  by (simp add: read_csv_def as_file_def export_defs export_row_def hdr_defs sample_defs ascii_def)

lemma read_yamada_suzuki:
  "read_csv (as_file (downloadCSV [yamada, suzuki]))
     = Complete \<lparr>meta_fields = Some export_headers,
                  results_data = [export_row yamada, export_row suzuki]\<rparr>"
  by (simp add: read_csv_def as_file_def export_defs export_row_def hdr_defs sample_defs ascii_def)

lemma small_files:
  "file_size (as_file (downloadCSV [yamada, nameless])) \<le> 5 * 1024 * 1024"
  "file_size (as_file (downloadCSV [yamada, suzuki])) \<le> 5 * 1024 * 1024"
  by (simp_all add: as_file_def utf8_length_def export_defs hdr_defs sample_defs ascii_def)

lemma complete_one_bad_row:
  "complete \<lparr>meta_fields = Some export_headers,
             results_data = [export_row yamada, export_row nameless]\<rparr>
     = \<lparr>valid = False, errors = [msg_required 3 hdr_name], data = Some [yamada]\<rparr>"
  by (simp add: complete_def numbered_def rowErrors_yamada rowErrors_nameless toRecord_export_row
        REQUIRED_HEADERS_def export_headers_def numeral_3_eq_3)

lemma complete_two_good_rows:
  "complete \<lparr>meta_fields = Some export_headers,
             results_data = [export_row yamada, export_row suzuki]\<rparr>
     = \<lparr>valid = True, errors = [], data = Some [yamada, suzuki]\<rparr>"
  by (simp add: complete_def numbered_def rowErrors_yamada rowErrors_suzuki toRecord_export_row
        REQUIRED_HEADERS_def export_headers_def)

section \<open>A file without valid rows (C9)\<close>

text \<open>
  C9: when the parser completes and no row survives validation, the result is not
  valid; when the parser reports the required columns and no data row at all, the
  result is not valid, its error list is empty and so is its data.
\<close>

theorem no_rows_rejected:
  "Papa_parse file = Complete results \<longrightarrow>
     (data (validateCSVData Papa_parse file) = Some [] \<longrightarrow> \<not> valid (validateCSVData Papa_parse file))
     \<and> (results_data results = []
          \<and> set (map fst REQUIRED_HEADERS) \<subseteq> set (case meta_fields results of None \<Rightarrow> [] | Some fs \<Rightarrow> fs)
        \<longrightarrow> validateCSVData Papa_parse file = \<lparr>valid = False, errors = [], data = Some []\<rparr>)"
proof (intro impI conjI)
  assume "Papa_parse file = Complete results"
    and "data (validateCSVData Papa_parse file) = Some []"
  then show "\<not> valid (validateCSVData Papa_parse file)"
    by (auto simp: validateCSVData_def complete_def Let_def)
next
  assume p: "Papa_parse file = Complete results"
    and "results_data results = []
          \<and> set (map fst REQUIRED_HEADERS) \<subseteq> set (case meta_fields results of None \<Rightarrow> [] | Some fs \<Rightarrow> fs)"
  then have "filter (\<lambda>header. header \<notin> set (case meta_fields results of None \<Rightarrow> [] | Some fs \<Rightarrow> fs))
               (map fst REQUIRED_HEADERS) = []"
    and "results_data results = []"
    by (auto simp: filter_empty_conv)
  then show "validateCSVData Papa_parse file = \<lparr>valid = False, errors = [], data = Some []\<rparr>"
    using p by (simp add: validateCSVData_def complete_def Let_def numbered_def)
qed

theorem no_rows_rejected_witness:
  "read_csv (as_file (downloadCSV ([] :: employee_data list)))
     = Complete \<lparr>meta_fields = Some export_headers, results_data = []\<rparr>
   \<and> validateCSVData read_csv (as_file (downloadCSV ([] :: employee_data list)))
     = \<lparr>valid = False, errors = [], data = Some []\<rparr>"
proof -
  have "set (map fst REQUIRED_HEADERS) \<subseteq> set export_headers"
    by (auto simp: REQUIRED_HEADERS_def export_headers_def)
  then show ?thesis
    using no_rows_rejected [of read_csv "as_file (downloadCSV ([] :: employee_data list))"
        "\<lparr>meta_fields = Some export_headers, results_data = []\<rparr>"]
    by (simp add: read_header_only)
qed

section \<open>Partial failure of an import (C1)\<close>

text \<open>
  C1, as the spec has it: a row that passes validation is imported even when another
  row of the file fails validation. The import is gated on the validation of the whole
  file: with one good row and one row without a name, the good row passes validation
  and still nothing is sent to the backend.
\<close>

theorem valid_row_not_imported_counterexample:
  "read_csv (as_file (downloadCSV [yamada, nameless]))
     = Complete \<lparr>meta_fields = Some export_headers,
                  results_data = [export_row yamada, export_row nameless]\<rparr>
   \<and> rowErrors 2 (export_row yamada) = []
   \<and> processFile toLowerCase_ascii read_csv sample_backend
        (as_file (downloadCSV [yamada, nameless])) []
      = (\<lparr>isProcessing = False, ui_errors = [msg_required 3 hdr_name], successCount = 0\<rparr>,
         [Parse_file (as_file (downloadCSV [yamada, nameless]))])"
  using small_files(1)
  by (simp add: processFile_def validateCSVData_def read_yamada_nameless rowErrors_yamada
        complete_one_bad_row)

text \<open>
  C1, amended: for a file within the size limit, when validation fails (a row fails,
  a required column is missing, or there is no data row) \<open>processFile\<close> shows the
  validation errors and sends nothing to the backend. When validation succeeds, every
  row of the file is a record of the batch; a \<open>createEmployee\<close> call is made for every
  row whose email did not occur in an earlier row, whatever happened to the calls
  before it; the success count is the number of inserts answered without an error; and
  every row adds one to the success count or one message to the errors shown.
\<close>

theorem processFile_partial_failure:
  "file_size file \<le> 5 * 1024 * 1024 \<longrightarrow>
     (let result = validateCSVData P file;
          out = processFile L P B file h;
          new = drop (Suc (length h)) (snd out)
      in (\<not> valid result \<longrightarrow>
            out = (\<lparr>isProcessing = False, ui_errors = errors result, successCount = 0\<rparr>,
                   h @ [Parse_file file]))
       \<and> (valid result \<longrightarrow>
            (\<exists>results.
               P file = Complete results
               \<and> results_data results \<noteq> []
               \<and> snd out = h @ Parse_file file # new
               \<and> select_emails new = map email (first_rows (map toRecord (results_data results)))
               \<and> successCount (fst out) = accepted_inserts new
               \<and> successCount (fst out) + length (ui_errors (fst out))
                    = length (results_data results))))"
proof (intro impI)
  assume size: "file_size file \<le> 5 * 1024 * 1024"
  let ?s0 = "\<lparr>imported = 0, importErrors = [], duplicateEmails = {}\<rparr>"
  let ?h1 = "h @ [Parse_file file]"
  have invalid: "\<not> valid (validateCSVData P file) \<Longrightarrow>
      processFile L P B file h
        = (\<lparr>isProcessing = False, ui_errors = errors (validateCSVData P file), successCount = 0\<rparr>, ?h1)"
    using size by (simp add: processFile_def Let_def)
  have valid_case: "\<exists>results.
               P file = Complete results
               \<and> results_data results \<noteq> []
               \<and> snd (processFile L P B file h)
                    = h @ Parse_file file # drop (Suc (length h)) (snd (processFile L P B file h))
               \<and> select_emails (drop (Suc (length h)) (snd (processFile L P B file h)))
                    = map email (first_rows (map toRecord (results_data results)))
               \<and> successCount (fst (processFile L P B file h))
                    = accepted_inserts (drop (Suc (length h)) (snd (processFile L P B file h)))
               \<and> successCount (fst (processFile L P B file h))
                    + length (ui_errors (fst (processFile L P B file h)))
                    = length (results_data results)"
    if v: "valid (validateCSVData P file)"
  proof -
    from valid_validateCSVData [OF v] obtain results where r:
      "P file = Complete results" "results_data results \<noteq> []"
      "data (validateCSVData P file) = Some (map toRecord (results_data results))"
      by blast
    let ?records = "map toRecord (results_data results)"
    let ?hs = "import_loop L B (?h1, ?s0) ?records"
    obtain evs where e:
      "fst ?hs = ?h1 @ evs"
      "select_emails evs = map email (first_rows_from {} ?records)"
      "imported (snd ?hs) = accepted_inserts evs"
      "imported (snd ?hs) + length (importErrors (snd ?hs)) = length ?records"
      using import_loop_events [of L B ?h1 ?s0 ?records] by auto
    have out: "processFile L P B file h
        = (\<lparr>isProcessing = False, ui_errors = importErrors (snd ?hs), successCount = imported (snd ?hs)\<rparr>,
           if imported (snd ?hs) > 0 then fst ?hs @ [OnSuccess] else fst ?hs)"
      using size v r(3) by (simp add: processFile_def Let_def)
    show ?thesis
      using r(1,2) e
      by (intro exI [of _ results])
         (simp add: out first_rows_from_empty select_emails_append accepted_inserts_append)
  qed
  show "let result = validateCSVData P file;
          out = processFile L P B file h;
          new = drop (Suc (length h)) (snd out)
      in (\<not> valid result \<longrightarrow>
            out = (\<lparr>isProcessing = False, ui_errors = errors result, successCount = 0\<rparr>,
                   h @ [Parse_file file]))
       \<and> (valid result \<longrightarrow>
            (\<exists>results.
               P file = Complete results
               \<and> results_data results \<noteq> []
               \<and> snd out = h @ Parse_file file # new
               \<and> select_emails new = map email (first_rows (map toRecord (results_data results)))
               \<and> successCount (fst out) = accepted_inserts new
               \<and> successCount (fst out) + length (ui_errors (fst out))
                    = length (results_data results)))"
    unfolding Let_def using invalid valid_case by blast
qed

theorem processFile_partial_failure_witness:
  "file_size (as_file (downloadCSV [yamada, nameless])) \<le> 5 * 1024 * 1024
   \<and> \<not> valid (validateCSVData read_csv (as_file (downloadCSV [yamada, nameless])))
   \<and> snd (processFile toLowerCase_ascii read_csv sample_backend
            (as_file (downloadCSV [yamada, nameless])) [])
       = [Parse_file (as_file (downloadCSV [yamada, nameless]))]
   \<and> file_size (as_file (downloadCSV [yamada, suzuki])) \<le> 5 * 1024 * 1024
   \<and> valid (validateCSVData read_csv (as_file (downloadCSV [yamada, suzuki])))
   \<and> select_emails (drop 2 (snd (processFile toLowerCase_ascii read_csv sample_backend
            (as_file (downloadCSV [yamada, suzuki]))
            [Insert_row yamada [] \<lparr>resp_data = Some yamada_row, resp_error = None\<rparr>])))
       = [email yamada, email suzuki]
   \<and> successCount (fst (processFile toLowerCase_ascii read_csv sample_backend
            (as_file (downloadCSV [yamada, suzuki]))
            [Insert_row yamada [] \<lparr>resp_data = Some yamada_row, resp_error = None\<rparr>]))
       = 1
   \<and> length (ui_errors (fst (processFile toLowerCase_ascii read_csv sample_backend
            (as_file (downloadCSV [yamada, suzuki]))
            [Insert_row yamada [] \<lparr>resp_data = Some yamada_row, resp_error = None\<rparr>])))
       = 1"
proof -
  let ?bad = "as_file (downloadCSV [yamada, nameless])"
  let ?good = "as_file (downloadCSV [yamada, suzuki])"
  let ?h = "[Insert_row yamada [] \<lparr>resp_data = Some yamada_row, resp_error = None\<rparr>]"
  have bad: "validateCSVData read_csv ?bad
      = \<lparr>valid = False, errors = [msg_required 3 hdr_name], data = Some [yamada]\<rparr>"
    by (simp add: validateCSVData_def read_yamada_nameless complete_one_bad_row)
  have good: "validateCSVData read_csv ?good
      = \<lparr>valid = True, errors = [], data = Some [yamada, suzuki]\<rparr>"
    by (simp add: validateCSVData_def read_yamada_suzuki complete_two_good_rows)
  have first: "first_rows [yamada, suzuki] = [yamada, suzuki]"
    by (simp add: first_rows_from_empty first_rows_from_Cons first_rows_from_Nil sample_defs ascii_def)
  have stored: "accepted_inserts (drop (Suc (length ?h))
        (snd (processFile toLowerCase_ascii read_csv sample_backend ?good ?h))) = 1"
    using small_files(2) unfolding processFile_def good
    by (simp add: import_record_def createEmployee_def checkEmailExists_def Let_def sample_defs
          ascii_def)
  show ?thesis
    using processFile_partial_failure [of ?bad read_csv toLowerCase_ascii sample_backend "[]"]
      processFile_partial_failure [of ?good read_csv toLowerCase_ascii sample_backend ?h]
      small_files stored
    by (auto simp: Let_def bad good first read_yamada_suzuki toRecord_export_row numeral_2_eq_2)
qed

section \<open>The list view's filter (C4)\<close>

text \<open>
  C4: the filter keeps exactly the employees for which the lower-cased search term is
  a contiguous part of the lower-cased name, email, department, company name or
  position (given that lower-casing the empty string gives the empty string, as the
  platform's does), and it keeps every employee for the empty search term.
\<close>

theorem filteredEmployees_substring:
  "(toLowerCase [] = [] \<longrightarrow>
      filteredEmployees toLowerCase employees searchTerm
        = filter (\<lambda>e. sublist (toLowerCase searchTerm) (toLowerCase (name e))
                      \<or> sublist (toLowerCase searchTerm) (toLowerCase (email e))
                      \<or> sublist (toLowerCase searchTerm) (toLowerCase (department e))
                      \<or> sublist (toLowerCase searchTerm) (toLowerCase (company_name e))
                      \<or> sublist (toLowerCase searchTerm) (toLowerCase (position e)))
            employees)
   \<and> filteredEmployees toLowerCase employees [] = employees"
proof -
  have "matchesSearch toLowerCase searchTerm e \<longleftrightarrow>
          sublist (toLowerCase searchTerm) (toLowerCase (name e))
          \<or> sublist (toLowerCase searchTerm) (toLowerCase (email e))
          \<or> sublist (toLowerCase searchTerm) (toLowerCase (department e))
          \<or> sublist (toLowerCase searchTerm) (toLowerCase (company_name e))
          \<or> sublist (toLowerCase searchTerm) (toLowerCase (position e))"
    if "toLowerCase [] = []" for e
    using that by (cases "searchTerm = []") (simp_all add: matchesSearch_def js_includes_sublist Let_def)
  moreover have "filteredEmployees toLowerCase employees [] = employees"
    by (simp add: filteredEmployees_def matchesSearch_def)
  ultimately show ?thesis
    by (auto simp: filteredEmployees_def intro!: filter_cong)
qed

theorem filteredEmployees_substring_witness:
  "toLowerCase_ascii [] = []
   \<and> filteredEmployees toLowerCase_ascii [yamada_row, suzuki_row] (ascii ''YAMA'') = [yamada_row]
   \<and> filteredEmployees toLowerCase_ascii [yamada_row, suzuki_row] (ascii ''sample'')
       = [yamada_row, suzuki_row]
   \<and> filteredEmployees toLowerCase_ascii [yamada_row, suzuki_row] [] = [yamada_row, suzuki_row]"
  using filteredEmployees_substring [of toLowerCase_ascii "[yamada_row, suzuki_row]" "ascii ''YAMA''"]
  by (simp add: filteredEmployees_def matchesSearch_def toLowerCase_ascii_def Let_def
        sample_defs ascii_def)

section \<open>What the export button exports (C10)\<close>

text \<open>
  C10: the text handed to the download is the export of the employees that match the
  search term, in their order, not of the whole list; the export button is disabled
  exactly when no employee matches.
\<close>

theorem export_is_filtered:
  "handleExportCSV toLowerCase employees searchTerm
     = downloadCSV (filter (matchesSearch toLowerCase searchTerm) employees)
   \<and> (exportDisabled toLowerCase employees searchTerm
        \<longleftrightarrow> (\<forall>e \<in> set employees. \<not> matchesSearch toLowerCase searchTerm e))"
  by (simp add: handleExportCSV_def exportDisabled_def filteredEmployees_def filter_empty_conv)

theorem export_is_filtered_witness:
  "handleExportCSV toLowerCase_ascii [yamada_row, suzuki_row] (ascii ''suz'') = downloadCSV [suzuki_row]
   \<and> handleExportCSV toLowerCase_ascii [yamada_row, suzuki_row] (ascii ''suz'')
       \<noteq> downloadCSV [yamada_row, suzuki_row]
   \<and> \<not> exportDisabled toLowerCase_ascii [yamada_row, suzuki_row] (ascii ''suz'')
   \<and> exportDisabled toLowerCase_ascii [yamada_row, suzuki_row] (ascii ''zzz'')"
proof -
  have m: "\<not> matchesSearch toLowerCase_ascii (ascii ''suz'') yamada_row"
    "matchesSearch toLowerCase_ascii (ascii ''suz'') suzuki_row"
    "\<not> matchesSearch toLowerCase_ascii (ascii ''zzz'') yamada_row"
    "\<not> matchesSearch toLowerCase_ascii (ascii ''zzz'') suzuki_row"
    by (simp_all add: matchesSearch_def toLowerCase_ascii_def Let_def sample_defs
          ascii_def)
  have d: "downloadCSV [suzuki_row] \<noteq> downloadCSV [yamada_row, suzuki_row]"
    by (simp add: downloadCSV_def csvContent_def export_line_def quoted_def export_headers_def
          hdr_defs sample_defs ascii_def)
  show ?thesis
    using export_is_filtered [of toLowerCase_ascii "[yamada_row, suzuki_row]" "ascii ''suz''"]
      export_is_filtered [of toLowerCase_ascii "[yamada_row, suzuki_row]" "ascii ''zzz''"]
    by (simp add: m d)
qed

section \<open>An accepted email is not blank and holds no quote\<close>











section \<open>The sample reader reads quoted cells\<close>
















section \<open>The round trip from export to import (C3)\<close>













end
